theory Spec2Isabelle
  imports Main "HOL-Library.Word"
begin

unbundle bit_operations_syntax

section \<open>The USB header of the EZ-USB firmware (firmware/include/usb.h)\<close>

text \<open>
  The header declares the wire structures of USB 1.1 (descriptors and the SETUP packet),
  the constants of \<open>bmRequestType\<close>, \<open>bRequest\<close> and the feature selectors, and two
  register macros. The structures are embedded as records, their members as values of the
  two integer types the header uses, and the macros as functions on the registers they
  touch.
\<close>

subsection \<open>Integer types and the layout of a structure\<close>

type_synonym uint8_t = "8 word"
type_synonym uint16_t = "16 word"

text \<open>
  A member of a structure, tagged with its declared type. The firmware is compiled by SDCC
  for the 8051 core of the EZ-USB (the header uses SDCC's \<open>__xdata\<close> and \<open>__at\<close>):
  members are laid out in declaration order, without padding, and a 16-bit member is
  stored low byte first, which is also the byte order of USB.
\<close>

datatype member = U8 uint8_t | U16 uint16_t

fun member_size :: "member \<Rightarrow> nat" where
  "member_size (U8 b) = 1"
| "member_size (U16 w) = 2"

definition le16 :: "uint16_t \<Rightarrow> uint8_t list" where
  "le16 w = [ucast w, ucast (drop_bit 8 w)]"

definition of_le16 :: "uint8_t \<Rightarrow> uint8_t \<Rightarrow> uint16_t" where
  "of_le16 lo hi = ucast lo OR push_bit 8 (ucast hi)"

fun member_bytes :: "member \<Rightarrow> uint8_t list" where
  "member_bytes (U8 b) = [b]"
| "member_bytes (U16 w) = le16 w"

definition struct_bytes :: "member list \<Rightarrow> uint8_t list" where
  "struct_bytes ms = concat (map member_bytes ms)"

definition struct_size :: "member list \<Rightarrow> nat" where
  "struct_size ms = sum_list (map member_size ms)"

text \<open>\<open>offsetof\<close>: the offset of the \<open>k\<close>-th member is the size of the members before it.\<close>

definition member_offset :: "member list \<Rightarrow> nat \<Rightarrow> nat" where
  "member_offset ms k = struct_size (take k ms)"

subsection \<open>Descriptor types, classes and attributes\<close>

definition USB_DESCRIPTOR_TYPE_DEVICE :: uint8_t where
  "USB_DESCRIPTOR_TYPE_DEVICE = 0x01"

definition USB_DESCRIPTOR_TYPE_CONFIGURATION :: uint8_t where
  "USB_DESCRIPTOR_TYPE_CONFIGURATION = 0x02"

definition USB_DESCRIPTOR_TYPE_STRING :: uint8_t where
  "USB_DESCRIPTOR_TYPE_STRING = 0x03"

definition USB_DESCRIPTOR_TYPE_INTERFACE :: uint8_t where
  "USB_DESCRIPTOR_TYPE_INTERFACE = 0x04"

definition USB_DESCRIPTOR_TYPE_ENDPOINT :: uint8_t where
  "USB_DESCRIPTOR_TYPE_ENDPOINT = 0x05"

definition USB_CLASS_VENDOR_SPEC :: uint8_t where
  "USB_CLASS_VENDOR_SPEC = 0xff"

definition USB_PROTOCOL_VENDOR_SPEC :: uint8_t where
  "USB_PROTOCOL_VENDOR_SPEC = 0xff"

definition USB_CONFIG_ATTRIB_RESERVED :: uint8_t where
  "USB_CONFIG_ATTRIB_RESERVED = 0x80"

definition USB_CONFIG_ATTRIB_SELF_POWERED :: uint8_t where
  "USB_CONFIG_ATTRIB_SELF_POWERED = 0x40"

definition USB_CONFIG_ATTRIB_REMOTE_WAKEUP :: uint8_t where
  "USB_CONFIG_ATTRIB_REMOTE_WAKEUP = 0x20"

definition USB_ENDPOINT_DIR_MASK :: uint8_t where
  "USB_ENDPOINT_DIR_MASK = 0x80"

definition USB_ENDPOINT_TYPE_BULK :: uint8_t where
  "USB_ENDPOINT_TYPE_BULK = 2"

definition USB_LANG_ENGLISH_US :: uint16_t where
  "USB_LANG_ENGLISH_US = 0x009 OR push_bit 10 0x01"

subsection \<open>The descriptor structures\<close>

record usb_device_descriptor =
  bLength :: uint8_t
  bDescriptorType :: uint8_t
  bcdUSB :: uint16_t
  bDeviceClass :: uint8_t
  bDeviceSubClass :: uint8_t
  bDeviceProtocol :: uint8_t
  bMaxPacketSize0 :: uint8_t
  idVendor :: uint16_t
  idProduct :: uint16_t
  bcdDevice :: uint16_t
  iManufacturer :: uint8_t
  iProduct :: uint8_t
  iSerialNumber :: uint8_t
  bNumConfigurations :: uint8_t

record usb_config_descriptor =
  bLength :: uint8_t
  bDescriptorType :: uint8_t
  wTotalLength :: uint16_t
  bNumInterfaces :: uint8_t
  bConfigurationValue :: uint8_t
  iConfiguration :: uint8_t
  bmAttributes :: uint8_t
  MaxPower :: uint8_t

record usb_interface_descriptor =
  bLength :: uint8_t
  bDescriptorType :: uint8_t
  bInterfaceNumber :: uint8_t
  bAlternateSetting :: uint8_t
  bNumEndpoints :: uint8_t
  bInterfaceClass :: uint8_t
  bInterfaceSubclass :: uint8_t
  bInterfaceProtocol :: uint8_t
  iInterface :: uint8_t

record usb_endpoint_descriptor =
  bLength :: uint8_t
  bDescriptorType :: uint8_t
  bEndpointAddress :: uint8_t
  bmAttributes :: uint8_t
  wMaxPacketSize :: uint16_t
  bInterval :: uint8_t

text \<open>The last member of the next two structures is a flexible array of 16-bit units.\<close>

record usb_language_descriptor =
  bLength :: uint8_t
  bDescriptorType :: uint8_t
  wLANGID :: "uint16_t list"

record usb_string_descriptor =
  bLength :: uint8_t
  bDescriptorType :: uint8_t
  bString :: "uint16_t list"

text \<open>The members of each structure, in the order of its declaration.\<close>

definition usb_device_descriptor_members :: "usb_device_descriptor \<Rightarrow> member list" where
  "usb_device_descriptor_members d =
     [U8 (usb_device_descriptor.bLength d), U8 (usb_device_descriptor.bDescriptorType d),
      U16 (bcdUSB d), U8 (bDeviceClass d), U8 (bDeviceSubClass d), U8 (bDeviceProtocol d),
      U8 (bMaxPacketSize0 d), U16 (idVendor d), U16 (idProduct d), U16 (bcdDevice d),
      U8 (iManufacturer d), U8 (iProduct d), U8 (iSerialNumber d), U8 (bNumConfigurations d)]"

definition usb_config_descriptor_members :: "usb_config_descriptor \<Rightarrow> member list" where
  "usb_config_descriptor_members c =
     [U8 (usb_config_descriptor.bLength c), U8 (usb_config_descriptor.bDescriptorType c),
      U16 (wTotalLength c), U8 (bNumInterfaces c), U8 (bConfigurationValue c),
      U8 (iConfiguration c), U8 (usb_config_descriptor.bmAttributes c), U8 (MaxPower c)]"

definition usb_interface_descriptor_members :: "usb_interface_descriptor \<Rightarrow> member list" where
  "usb_interface_descriptor_members i =
     [U8 (usb_interface_descriptor.bLength i), U8 (usb_interface_descriptor.bDescriptorType i),
      U8 (bInterfaceNumber i), U8 (bAlternateSetting i), U8 (bNumEndpoints i),
      U8 (bInterfaceClass i), U8 (bInterfaceSubclass i), U8 (bInterfaceProtocol i),
      U8 (iInterface i)]"

definition usb_endpoint_descriptor_members :: "usb_endpoint_descriptor \<Rightarrow> member list" where
  "usb_endpoint_descriptor_members e =
     [U8 (usb_endpoint_descriptor.bLength e), U8 (usb_endpoint_descriptor.bDescriptorType e),
      U8 (bEndpointAddress e), U8 (usb_endpoint_descriptor.bmAttributes e),
      U16 (wMaxPacketSize e), U8 (bInterval e)]"

definition usb_language_descriptor_members :: "usb_language_descriptor \<Rightarrow> member list" where
  "usb_language_descriptor_members l =
     U8 (usb_language_descriptor.bLength l) # U8 (usb_language_descriptor.bDescriptorType l)
       # map U16 (wLANGID l)"

definition usb_string_descriptor_members :: "usb_string_descriptor \<Rightarrow> member list" where
  "usb_string_descriptor_members s =
     U8 (usb_string_descriptor.bLength s) # U8 (usb_string_descriptor.bDescriptorType s)
       # map U16 (bString s)"

text \<open>
  \<open>STR_DESCR(len, ...)\<close> expands to the initialiser
  \<open>{ len*2+2, USB_DESCRIPTOR_TYPE_STRING, { ... } }\<close>. The text of the argument \<open>len\<close> is
  pasted without parentheses, so the \<open>*2\<close> of the expansion binds to the last operand of
  the argument only. The argument is modelled as it is written at its top level: a single
  operand (a literal, a parenthesised expression or a product, given by its value), or a
  leading term added to the rest of the argument (a subtracted term carries its sign). An
  argument whose top-level operator binds less tightly than \<open>+\<close> is not covered.
\<close>

datatype macro_arg = Operand int | Addend int macro_arg

text \<open>The value of the argument on its own.\<close>

fun arg_value :: "macro_arg \<Rightarrow> int" where
  "arg_value (Operand v) = v"
| "arg_value (Addend v rest) = v + arg_value rest"

text \<open>The value of \<open>len*2+2\<close> after the argument has been pasted for \<open>len\<close>.\<close>

fun len_times2_plus2 :: "macro_arg \<Rightarrow> int" where
  "len_times2_plus2 (Operand v) = v * 2 + 2"
| "len_times2_plus2 (Addend v rest) = v + len_times2_plus2 rest"

text \<open>
  The first member of the initialised structure is a \<open>uint8_t\<close>: the value of the
  expansion is converted to 8 bits when it is stored.
\<close>

definition STR_DESCR :: "macro_arg \<Rightarrow> uint16_t list \<Rightarrow> usb_string_descriptor" where
  "STR_DESCR len units =
     \<lparr>usb_string_descriptor.bLength = of_int (len_times2_plus2 len),
      usb_string_descriptor.bDescriptorType = USB_DESCRIPTOR_TYPE_STRING,
      bString = units\<rparr>"

subsection \<open>The SETUP packet of endpoint 0\<close>

record setup_data =
  bmRequestType :: uint8_t
  bRequest :: uint8_t
  wValue :: uint16_t
  wIndex :: uint16_t
  wLength :: uint16_t

definition setup_data_members :: "setup_data \<Rightarrow> member list" where
  "setup_data_members s =
     [U8 (bmRequestType s), U8 (bRequest s), U16 (wValue s), U16 (wIndex s), U16 (wLength s)]"

text \<open>
  The structure is placed on the eight bytes at \<open>0x7FE8\<close> in which the EZ-USB core stores
  the SETUP packet it received.
\<close>

subsection \<open>The fields of \<open>bmRequestType\<close>\<close>

definition USB_DIR_OUT :: uint8_t where
  "USB_DIR_OUT = 0x00"

definition USB_DIR_IN :: uint8_t where
  "USB_DIR_IN = 0x80"

definition USB_REQ_TYPE_STANDARD :: uint8_t where
  "USB_REQ_TYPE_STANDARD = push_bit 5 0x00"

definition USB_REQ_TYPE_CLASS :: uint8_t where
  "USB_REQ_TYPE_CLASS = push_bit 5 0x01"

definition USB_REQ_TYPE_VENDOR :: uint8_t where
  "USB_REQ_TYPE_VENDOR = push_bit 5 0x02"

definition USB_REQ_TYPE_RESERVED :: uint8_t where
  "USB_REQ_TYPE_RESERVED = push_bit 5 0x03"

definition USB_RECIP_DEVICE :: uint8_t where
  "USB_RECIP_DEVICE = 0x00"

definition USB_RECIP_INTERFACE :: uint8_t where
  "USB_RECIP_INTERFACE = 0x01"

definition USB_RECIP_ENDPOINT :: uint8_t where
  "USB_RECIP_ENDPOINT = 0x02"

definition USB_RECIP_OTHER :: uint8_t where
  "USB_RECIP_OTHER = 0x03"

text \<open>
  The header's comment on \<open>bmRequestType\<close> (USB 1.1, table 9-2) gives the three fields:
  bit 7 is the direction, bits 6 to 5 the type, bits 4 to 0 the recipient.
\<close>

definition request_direction :: "uint8_t \<Rightarrow> uint8_t" where
  "request_direction b = b AND 0x80"

definition request_type :: "uint8_t \<Rightarrow> uint8_t" where
  "request_type b = b AND 0x60"

definition request_recipient :: "uint8_t \<Rightarrow> uint8_t" where
  "request_recipient b = b AND 0x1f"

text \<open>The values of \<open>bmRequestType\<close> of the standard requests.\<close>

definition USB_RECIP_CF_DEVICE :: uint8_t where
  "USB_RECIP_CF_DEVICE = USB_DIR_OUT OR USB_REQ_TYPE_STANDARD OR USB_RECIP_DEVICE"

definition USB_RECIP_CF_INTERFACE :: uint8_t where
  "USB_RECIP_CF_INTERFACE = USB_DIR_OUT OR USB_REQ_TYPE_STANDARD OR USB_RECIP_INTERFACE"

definition USB_RECIP_CF_ENDPOINT :: uint8_t where
  "USB_RECIP_CF_ENDPOINT = USB_DIR_OUT OR USB_REQ_TYPE_STANDARD OR USB_RECIP_ENDPOINT"

definition USB_RECIP_GC_DEVICE :: uint8_t where
  "USB_RECIP_GC_DEVICE = USB_DIR_IN OR USB_REQ_TYPE_STANDARD OR USB_RECIP_DEVICE"

definition USB_RECIP_GD_DEVICE :: uint8_t where
  "USB_RECIP_GD_DEVICE = USB_DIR_IN OR USB_REQ_TYPE_STANDARD OR USB_RECIP_DEVICE"

definition USB_RECIP_GI_INTERFACE :: uint8_t where
  "USB_RECIP_GI_INTERFACE = USB_DIR_IN OR USB_REQ_TYPE_STANDARD OR USB_RECIP_INTERFACE"

definition USB_RECIP_GS_DEVICE :: uint8_t where
  "USB_RECIP_GS_DEVICE = USB_DIR_IN OR USB_REQ_TYPE_STANDARD OR USB_RECIP_DEVICE"

definition USB_RECIP_GS_INTERFACE :: uint8_t where
  "USB_RECIP_GS_INTERFACE = USB_DIR_IN OR USB_REQ_TYPE_STANDARD OR USB_RECIP_INTERFACE"

definition USB_RECIP_GS_ENDPOINT :: uint8_t where
  "USB_RECIP_GS_ENDPOINT = USB_DIR_IN OR USB_REQ_TYPE_STANDARD OR USB_RECIP_ENDPOINT"

definition USB_RECIP_SC_DEVICE :: uint8_t where
  "USB_RECIP_SC_DEVICE = USB_DIR_OUT OR USB_REQ_TYPE_STANDARD OR USB_RECIP_DEVICE"

definition USB_RECIP_SD_DEVICE :: uint8_t where
  "USB_RECIP_SD_DEVICE = USB_DIR_OUT OR USB_REQ_TYPE_STANDARD OR USB_RECIP_DEVICE"

definition USB_RECIP_SF_DEVICE :: uint8_t where
  "USB_RECIP_SF_DEVICE = USB_DIR_OUT OR USB_REQ_TYPE_STANDARD OR USB_RECIP_DEVICE"

definition USB_RECIP_SF_INTERFACE :: uint8_t where
  "USB_RECIP_SF_INTERFACE = USB_DIR_OUT OR USB_REQ_TYPE_STANDARD OR USB_RECIP_INTERFACE"

definition USB_RECIP_SF_ENDPOINT :: uint8_t where
  "USB_RECIP_SF_ENDPOINT = USB_DIR_OUT OR USB_REQ_TYPE_STANDARD OR USB_RECIP_ENDPOINT"

definition USB_RECIP_SI_INTERFACE :: uint8_t where
  "USB_RECIP_SI_INTERFACE = USB_DIR_OUT OR USB_REQ_TYPE_STANDARD OR USB_RECIP_INTERFACE"

definition USB_RECIP_SY_ENDPOINT :: uint8_t where
  "USB_RECIP_SY_ENDPOINT = USB_DIR_IN OR USB_REQ_TYPE_STANDARD OR USB_RECIP_ENDPOINT"

subsection \<open>Request codes and feature selectors\<close>

definition USB_REQ_GET_STATUS :: uint8_t where
  "USB_REQ_GET_STATUS = 0"

definition USB_REQ_CLEAR_FEATURE :: uint8_t where
  "USB_REQ_CLEAR_FEATURE = 1"

definition USB_REQ_SET_FEATURE :: uint8_t where
  "USB_REQ_SET_FEATURE = 3"

definition USB_REQ_SET_ADDRESS :: uint8_t where
  "USB_REQ_SET_ADDRESS = 5"

definition USB_REQ_GET_DESCRIPTOR :: uint8_t where
  "USB_REQ_GET_DESCRIPTOR = 6"

definition USB_REQ_SET_DESCRIPTOR :: uint8_t where
  "USB_REQ_SET_DESCRIPTOR = 7"

definition USB_REQ_GET_CONFIGURATION :: uint8_t where
  "USB_REQ_GET_CONFIGURATION = 8"

definition USB_REQ_SET_CONFIGURATION :: uint8_t where
  "USB_REQ_SET_CONFIGURATION = 9"

definition USB_REQ_GET_INTERFACE :: uint8_t where
  "USB_REQ_GET_INTERFACE = 10"

definition USB_REQ_SET_INTERFACE :: uint8_t where
  "USB_REQ_SET_INTERFACE = 11"

definition USB_REQ_SYNCH_FRAME :: uint8_t where
  "USB_REQ_SYNCH_FRAME = 12"

text \<open>Every request code the header defines, in the order of its \<open>#define\<close> lines.\<close>

definition usb_requests :: "uint8_t list" where
  "usb_requests =
     [USB_REQ_GET_STATUS, USB_REQ_CLEAR_FEATURE, USB_REQ_SET_FEATURE, USB_REQ_SET_ADDRESS,
      USB_REQ_GET_DESCRIPTOR, USB_REQ_SET_DESCRIPTOR, USB_REQ_GET_CONFIGURATION,
      USB_REQ_SET_CONFIGURATION, USB_REQ_GET_INTERFACE, USB_REQ_SET_INTERFACE,
      USB_REQ_SYNCH_FRAME]"

definition DEVICE_REMOTE_WAKEUP :: uint16_t where
  "DEVICE_REMOTE_WAKEUP = 1"

definition ENDPOINT_HALT :: uint16_t where
  "ENDPOINT_HALT = 0"

subsection \<open>The register macros\<close>

text \<open>
  \<open>STALL_EP0()\<close> is \<open>EP0CS |= EP0STALL\<close> and \<open>CLEAR_IRQ()\<close> is \<open>EXIF &= ~USBINT\<close>. The
  registers are the two bytes the macros read and write; the bit masks \<open>EP0STALL\<close> and
  \<open>USBINT\<close> come from \<open>reg_ezusb.h\<close>, which is not among the sources, and are parameters.
\<close>

record ezusb_regs =
  EP0CS :: uint8_t
  EXIF :: uint8_t

definition STALL_EP0 :: "uint8_t \<Rightarrow> ezusb_regs \<Rightarrow> ezusb_regs" where
  "STALL_EP0 EP0STALL r = r\<lparr>EP0CS := EP0CS r OR EP0STALL\<rparr>"

definition CLEAR_IRQ :: "uint8_t \<Rightarrow> ezusb_regs \<Rightarrow> ezusb_regs" where
  "CLEAR_IRQ USBINT r = r\<lparr>EXIF := EXIF r AND NOT USBINT\<rparr>"

section \<open>The control-transfer engine the header belongs to\<close>

text \<open>
  The descriptor tables, the lookup of a descriptor and the dispatcher of control requests
  are defined in files of the firmware that are not among the sources at hand; the header
  only declares what they use. They are modelled here from the specification of the
  firmware, on top of the structures and constants of the header.
\<close>

subsection \<open>Descriptor store\<close>

text \<open>
  Modelled from the spec: the descriptor tables (the firmware file that defines them is
  missing). The store holds one device descriptor, one configuration descriptor with its
  nested interface descriptors, each followed by its endpoint descriptors, the language
  descriptor (string index 0) and the string descriptors (string index 1 onwards).
\<close>

record descriptor_store =
  device :: usb_device_descriptor
  configuration :: usb_config_descriptor
  nested :: "(usb_interface_descriptor \<times> usb_endpoint_descriptor list) list"
  languages :: usb_language_descriptor
  strings :: "usb_string_descriptor list"

text \<open>
  Modelled from the spec: an interface descriptor is served with its endpoint descriptors
  right behind it (the serving code is missing).
\<close>

definition interface_block ::
  "usb_interface_descriptor \<times> usb_endpoint_descriptor list \<Rightarrow> uint8_t list" where
  "interface_block ie =
     struct_bytes (usb_interface_descriptor_members (fst ie))
       @ concat (map (\<lambda>e. struct_bytes (usb_endpoint_descriptor_members e)) (snd ie))"

text \<open>
  Modelled from the spec: on a request for the configuration descriptor the store serves
  the configuration descriptor and all nested descriptors as one contiguous byte sequence
  (the serving code is missing).
\<close>

definition configuration_block :: "descriptor_store \<Rightarrow> uint8_t list" where
  "configuration_block st =
     struct_bytes (usb_config_descriptor_members (configuration st))
       @ concat (map interface_block (nested st))"

text \<open>
  Modelled from the spec: \<open>getDescriptor(type, index, languageId)\<close> returns the bytes of a
  descriptor, or \<open>None\<close> for NOT_FOUND (the function is missing from the sources). Device
  and configuration descriptors ignore index and language. String index 0 is the language
  descriptor; another index is not found when it exceeds the table or when the language
  is not one the language descriptor lists. Interface and endpoint descriptors are not
  retrievable on their own, and no other type is known.
\<close>

definition getDescriptor ::
  "descriptor_store \<Rightarrow> uint8_t \<Rightarrow> uint8_t \<Rightarrow> uint16_t \<Rightarrow> uint8_t list option" where
  "getDescriptor st ty idx lang =
     (if ty = USB_DESCRIPTOR_TYPE_DEVICE then
        Some (struct_bytes (usb_device_descriptor_members (device st)))
      else if ty = USB_DESCRIPTOR_TYPE_CONFIGURATION then
        Some (configuration_block st)
      else if ty = USB_DESCRIPTOR_TYPE_STRING then
        (if idx = 0 then
           Some (struct_bytes (usb_language_descriptor_members (languages st)))
         else if length (strings st) < unat idx then None
         else if lang \<notin> set (wLANGID (languages st)) then None
         else Some (struct_bytes (usb_string_descriptor_members (strings st ! (unat idx - 1)))))
      else None)"

subsection \<open>Device and endpoint state\<close>

text \<open>
  Modelled from the spec: the states of a control transfer (the dispatcher is missing).
\<close>

datatype control_state =
  IDLE | SETUP_RECEIVED | DATA_IN | DATA_OUT | NO_DATA | STATUS | ERROR_STALL

text \<open>
  Modelled from the spec: the state the dispatcher reads and mutates (its declarations are
  missing): the current configuration value, the alternate setting of each interface, the
  halt flag and data toggle of each endpoint address, the remote-wakeup feature, whether
  the control endpoint is stalled, and the state of the control transfer.
\<close>

record device_state =
  currentConfigurationValue :: uint8_t
  currentAlternateSetting :: "uint8_t \<Rightarrow> uint8_t"
  halted :: "uint8_t \<Rightarrow> bool"
  data_toggle :: "uint8_t \<Rightarrow> bool"
  remote_wakeup :: bool
  ep0_stalled :: bool
  control :: control_state

text \<open>Modelled from the spec: the state at reset, unconfigured and nothing halted.\<close>

definition reset_state :: device_state where
  "reset_state =
     \<lparr>currentConfigurationValue = 0, currentAlternateSetting = (\<lambda>_. 0),
      halted = (\<lambda>_. False), data_toggle = (\<lambda>_. False), remote_wakeup = False,
      ep0_stalled = False, control = IDLE\<rparr>"

subsection \<open>Control request dispatcher\<close>

text \<open>
  Modelled from the spec: what a request handler hands back to the dispatcher (the
  handlers are missing): an explicit failure, success without data, or the data to return
  to the host.
\<close>

datatype reply = Fail | Ack | Data "uint8_t list"

text \<open>
  Modelled from the spec: the endpoints that exist are the control endpoint and those of
  the endpoint descriptors of the store (the endpoint table is missing).
\<close>

definition endpoint_exists :: "descriptor_store \<Rightarrow> uint8_t \<Rightarrow> bool" where
  "endpoint_exists st a =
     (a AND 0x0f = 0 \<or> a \<in> set (map bEndpointAddress (concat (map snd (nested st)))))"

text \<open>
  Modelled from the spec: GET_STATUS (the handler is missing) returns two bytes: for the
  device, bit 0 is self-powered and bit 1 remote wakeup; for an endpoint that exists,
  bit 0 is its halt flag. Any other recipient fails.
\<close>

definition get_status :: "descriptor_store \<Rightarrow> setup_data \<Rightarrow> device_state \<Rightarrow> reply" where
  "get_status st s dev =
     (if request_recipient (bmRequestType s) = USB_RECIP_DEVICE then
        Data [(if usb_config_descriptor.bmAttributes (configuration st)
                    AND USB_CONFIG_ATTRIB_SELF_POWERED = 0 then 0 else 1)
              OR (if remote_wakeup dev then 2 else 0), 0]
      else if request_recipient (bmRequestType s) = USB_RECIP_ENDPOINT then
        (if endpoint_exists st (ucast (wIndex s))
         then Data [if halted dev (ucast (wIndex s)) then 1 else 0, 0]
         else Fail)
      else Fail)"

text \<open>
  Modelled from the spec: CLEAR_FEATURE (\<open>on = False\<close>) and SET_FEATURE (\<open>on = True\<close>)
  (the handlers are missing). Only ENDPOINT_HALT with an endpoint recipient and
  DEVICE_REMOTE_WAKEUP with the device as recipient are recognised. Clearing the halt of
  an endpoint also resets its data toggle.
\<close>

definition feature_request ::
  "bool \<Rightarrow> setup_data \<Rightarrow> device_state \<Rightarrow> reply \<times> device_state" where
  "feature_request on s dev =
     (if wValue s = ENDPOINT_HALT
         \<and> request_recipient (bmRequestType s) = USB_RECIP_ENDPOINT then
        (Ack, dev\<lparr>halted := (halted dev)(ucast (wIndex s) := on),
                   data_toggle := (if on then data_toggle dev
                                   else (data_toggle dev)(ucast (wIndex s) := False))\<rparr>)
      else if wValue s = DEVICE_REMOTE_WAKEUP
         \<and> request_recipient (bmRequestType s) = USB_RECIP_DEVICE then
        (Ack, dev\<lparr>remote_wakeup := on\<rparr>)
      else (Fail, dev))"

text \<open>
  Modelled from the spec: SET_CONFIGURATION (the handler is missing). Value 0 makes the
  device unconfigured and resets every halt flag; the value of the configuration
  descriptor selects it and resets halt flag and data toggle of every endpoint; any other
  value fails.
\<close>

definition set_configuration ::
  "descriptor_store \<Rightarrow> setup_data \<Rightarrow> device_state \<Rightarrow> reply \<times> device_state" where
  "set_configuration st s dev =
     (if (ucast (wValue s) :: uint8_t) = 0 then
        (Ack, dev\<lparr>currentConfigurationValue := 0, halted := (\<lambda>_. False)\<rparr>)
      else if ucast (wValue s) = bConfigurationValue (configuration st) then
        (Ack, dev\<lparr>currentConfigurationValue := ucast (wValue s),
                   halted := (\<lambda>_. False), data_toggle := (\<lambda>_. False)\<rparr>)
      else (Fail, dev))"

text \<open>
  Modelled from the spec: GET_INTERFACE and SET_INTERFACE (the handlers are missing) read
  and write the alternate setting of the interface named by the low byte of \<open>wIndex\<close>, and
  fail when the store has no such interface or alternate setting. A change of interface
  resets the halt flag of every endpoint but the control endpoint.
\<close>

definition get_interface :: "descriptor_store \<Rightarrow> setup_data \<Rightarrow> device_state \<Rightarrow> reply" where
  "get_interface st s dev =
     (if ucast (wIndex s) \<in> set (map (\<lambda>ie. bInterfaceNumber (fst ie)) (nested st))
      then Data [currentAlternateSetting dev (ucast (wIndex s))]
      else Fail)"

definition set_interface ::
  "descriptor_store \<Rightarrow> setup_data \<Rightarrow> device_state \<Rightarrow> reply \<times> device_state" where
  "set_interface st s dev =
     (if (ucast (wIndex s), ucast (wValue s))
           \<in> set (map (\<lambda>ie. (bInterfaceNumber (fst ie), bAlternateSetting (fst ie))) (nested st))
      then (Ack, dev\<lparr>currentAlternateSetting :=
                        (currentAlternateSetting dev)(ucast (wIndex s) := ucast (wValue s)),
                      halted := (\<lambda>a. a AND 0x0f = 0 \<and> halted dev a)\<rparr>)
      else (Fail, dev))"

text \<open>
  Modelled from the spec: the routing of a standard request by \<open>bRequest\<close> (the dispatcher
  is missing). SET_ADDRESS is carried out by the hardware and only completes;
  GET_DESCRIPTOR takes the descriptor type from the high byte of \<open>wValue\<close>, the index from
  its low byte and the language from \<open>wIndex\<close>; SET_DESCRIPTOR and SYNCH_FRAME always
  fail; a request code that is not recognised fails.
\<close>

definition standard_request ::
  "descriptor_store \<Rightarrow> setup_data \<Rightarrow> device_state \<Rightarrow> reply \<times> device_state" where
  "standard_request st s dev =
     (if bRequest s = USB_REQ_GET_STATUS then (get_status st s dev, dev)
      else if bRequest s = USB_REQ_CLEAR_FEATURE then feature_request False s dev
      else if bRequest s = USB_REQ_SET_FEATURE then feature_request True s dev
      else if bRequest s = USB_REQ_SET_ADDRESS then (Ack, dev)
      else if bRequest s = USB_REQ_GET_DESCRIPTOR then
        (case getDescriptor st (ucast (drop_bit 8 (wValue s))) (ucast (wValue s)) (wIndex s) of
           None \<Rightarrow> (Fail, dev)
         | Some bs \<Rightarrow> (Data bs, dev))
      else if bRequest s = USB_REQ_SET_DESCRIPTOR then (Fail, dev)
      else if bRequest s = USB_REQ_GET_CONFIGURATION then
        (Data [currentConfigurationValue dev], dev)
      else if bRequest s = USB_REQ_SET_CONFIGURATION then set_configuration st s dev
      else if bRequest s = USB_REQ_GET_INTERFACE then (get_interface st s dev, dev)
      else if bRequest s = USB_REQ_SET_INTERFACE then set_interface st s dev
      else if bRequest s = USB_REQ_SYNCH_FRAME then (Fail, dev)
      else (Fail, dev))"

text \<open>
  Modelled from the spec: the classification of a request by the type bits of
  \<open>bmRequestType\<close> (the dispatcher is missing). Standard requests are handled here; class
  and vendor requests go to the external handler, which answers handled or not handled,
  and fail when none is registered; the reserved type fails.
\<close>

definition classify ::
  "descriptor_store \<Rightarrow> (setup_data \<Rightarrow> bool) option \<Rightarrow> setup_data \<Rightarrow> device_state
     \<Rightarrow> reply \<times> device_state" where
  "classify st ext s dev =
     (if request_type (bmRequestType s) = USB_REQ_TYPE_STANDARD then standard_request st s dev
      else if request_type (bmRequestType s) = USB_REQ_TYPE_CLASS
           \<or> request_type (bmRequestType s) = USB_REQ_TYPE_VENDOR then
        (case ext of
           None \<Rightarrow> (Fail, dev)
         | Some h \<Rightarrow> (if h s then Ack else Fail, dev))
      else (Fail, dev))"

text \<open>
  Modelled from the spec: the stage that follows the SETUP stage of a request that did not
  fail: no data stage when \<open>wLength\<close> is 0, otherwise the direction of bit 7.
\<close>

definition data_stage :: "setup_data \<Rightarrow> control_state" where
  "data_stage s =
     (if wLength s = 0 then NO_DATA
      else if request_direction (bmRequestType s) = USB_DIR_IN then DATA_IN
      else DATA_OUT)"

text \<open>
  Modelled from the spec: what one control transfer did (the dispatcher is missing): the
  states it went through after \<open>IDLE\<close>, and the bytes it returned to the host in its data
  stage.
\<close>

record transfer =
  trace :: "control_state list"
  sent :: "uint8_t list"

text \<open>
  Modelled from the spec: one control transfer, from the SETUP event to its end (the
  dispatcher is missing). The SETUP token clears a latched stall. A failing request ends
  in \<open>ERROR_STALL\<close> with the control endpoint stalled. Any other request goes through its
  data stage and the status stage back to \<open>IDLE\<close>; in a \<open>DATA_IN\<close> stage the device returns
  the handler's data, cut to \<open>wLength\<close> bytes.
\<close>

definition control_transfer ::
  "descriptor_store \<Rightarrow> (setup_data \<Rightarrow> bool) option \<Rightarrow> setup_data \<Rightarrow> device_state
     \<Rightarrow> transfer \<times> device_state" where
  "control_transfer st ext s dev =
     (case classify st ext s (dev\<lparr>ep0_stalled := False, control := SETUP_RECEIVED\<rparr>) of
        (Fail, dev') \<Rightarrow>
          (\<lparr>trace = [SETUP_RECEIVED, ERROR_STALL], sent = []\<rparr>,
           dev'\<lparr>ep0_stalled := True, control := ERROR_STALL\<rparr>)
      | (Ack, dev') \<Rightarrow>
          (\<lparr>trace = [SETUP_RECEIVED, data_stage s, STATUS, IDLE], sent = []\<rparr>,
           dev'\<lparr>control := IDLE\<rparr>)
      | (Data bs, dev') \<Rightarrow>
          (\<lparr>trace = [SETUP_RECEIVED, data_stage s, STATUS, IDLE],
            sent = (if data_stage s = DATA_IN then take (unat (wLength s)) bs else [])\<rparr>,
           dev'\<lparr>control := IDLE\<rparr>))"

subsection \<open>A store and requests to run the engine on\<close>

text \<open>
  A vendor-specific device with one interface and the two bulk endpoints of endpoint 2,
  one language and three strings.
\<close>

definition example_store :: descriptor_store where
  "example_store =
     \<lparr>device =
        \<lparr>usb_device_descriptor.bLength = 18,
         usb_device_descriptor.bDescriptorType = USB_DESCRIPTOR_TYPE_DEVICE,
         bcdUSB = 0x0110, bDeviceClass = USB_CLASS_VENDOR_SPEC,
         bDeviceSubClass = USB_CLASS_VENDOR_SPEC, bDeviceProtocol = USB_PROTOCOL_VENDOR_SPEC,
         bMaxPacketSize0 = 64, idVendor = 0xC251, idProduct = 0x2710, bcdDevice = 0x0100,
         iManufacturer = 1, iProduct = 2, iSerialNumber = 3, bNumConfigurations = 1\<rparr>,
      configuration =
        \<lparr>usb_config_descriptor.bLength = 9,
         usb_config_descriptor.bDescriptorType = USB_DESCRIPTOR_TYPE_CONFIGURATION,
         wTotalLength = 32, bNumInterfaces = 1, bConfigurationValue = 1, iConfiguration = 0,
         usb_config_descriptor.bmAttributes = USB_CONFIG_ATTRIB_RESERVED, MaxPower = 50\<rparr>,
      nested =
        [(\<lparr>usb_interface_descriptor.bLength = 9,
           usb_interface_descriptor.bDescriptorType = USB_DESCRIPTOR_TYPE_INTERFACE,
           bInterfaceNumber = 0, bAlternateSetting = 0, bNumEndpoints = 2,
           bInterfaceClass = USB_CLASS_VENDOR_SPEC, bInterfaceSubclass = USB_CLASS_VENDOR_SPEC,
           bInterfaceProtocol = USB_PROTOCOL_VENDOR_SPEC, iInterface = 0\<rparr>,
          [\<lparr>usb_endpoint_descriptor.bLength = 7,
            usb_endpoint_descriptor.bDescriptorType = USB_DESCRIPTOR_TYPE_ENDPOINT,
            bEndpointAddress = 2 OR USB_ENDPOINT_DIR_MASK,
            usb_endpoint_descriptor.bmAttributes = USB_ENDPOINT_TYPE_BULK,
            wMaxPacketSize = 64, bInterval = 0\<rparr>,
           \<lparr>usb_endpoint_descriptor.bLength = 7,
            usb_endpoint_descriptor.bDescriptorType = USB_DESCRIPTOR_TYPE_ENDPOINT,
            bEndpointAddress = 2,
            usb_endpoint_descriptor.bmAttributes = USB_ENDPOINT_TYPE_BULK,
            wMaxPacketSize = 64, bInterval = 0\<rparr>])],
      languages =
        \<lparr>usb_language_descriptor.bLength = 4,
         usb_language_descriptor.bDescriptorType = USB_DESCRIPTOR_TYPE_STRING,
         wLANGID = [USB_LANG_ENGLISH_US]\<rparr>,
      strings =
        [STR_DESCR (Operand 3) [0x55, 0x53, 0x42], STR_DESCR (Operand 2) [0x45, 0x5A],
         STR_DESCR (Operand 1) [0x31]]\<rparr>"



text \<open>A standard request to the device with the given request code and no data.\<close>

definition setup_reserved :: "uint8_t \<Rightarrow> setup_data" where
  "setup_reserved code =
     \<lparr>bmRequestType = USB_RECIP_CF_DEVICE, bRequest = code, wValue = 0, wIndex = 0,
      wLength = 0\<rparr>"

text \<open>A CLEAR_FEATURE or SET_FEATURE request for a feature selector and a target.\<close>

definition setup_feature :: "uint8_t \<Rightarrow> uint8_t \<Rightarrow> uint16_t \<Rightarrow> uint16_t \<Rightarrow> setup_data" where
  "setup_feature ty code selector target =
     \<lparr>bmRequestType = ty, bRequest = code, wValue = selector, wIndex = target, wLength = 0\<rparr>"

section \<open>Properties of the header\<close>

subsection \<open>Byte layout\<close>

lemma of_le16_le16: "of_le16 (ucast w) (ucast (drop_bit 8 w)) = w"
  unfolding of_le16_def by (rule bit_word_eqI) (auto simp add: bit_simps)

lemma length_struct_bytes: "length (struct_bytes ms) = struct_size ms"
proof (induction ms)
  case Nil
  show ?case by (simp add: struct_bytes_def struct_size_def)
next
  case (Cons m ms)
  then show ?case
    by (cases m) (simp_all add: struct_bytes_def struct_size_def le16_def)
qed

lemma struct_size_U16s: "struct_size (map U16 ws) = 2 * length ws"
  by (induction ws) (simp_all add: struct_size_def)

text \<open>
  C1. The SETUP packet is eight bytes: \<open>bmRequestType\<close> at offset 0 and \<open>bRequest\<close> at
  offset 1, one byte each, then \<open>wValue\<close>, \<open>wIndex\<close> and \<open>wLength\<close>, two bytes each, at
  offsets 2, 4 and 6. Every value of \<open>setup_data\<close> is laid out on exactly eight bytes, and
  the byte at offset 1 is the request code.
\<close>

theorem setup_data_layout:
  "length (struct_bytes (setup_data_members s)) = 8
   \<and> struct_size (setup_data_members s) = 8
   \<and> map member_size (setup_data_members s) = [1, 1, 2, 2, 2]
   \<and> map (member_offset (setup_data_members s)) [0, 1, 2, 3, 4] = [0, 1, 2, 4, 6]
   \<and> struct_bytes (setup_data_members s) ! 0 = bmRequestType s
   \<and> struct_bytes (setup_data_members s) ! 1 = bRequest s
   \<and> of_le16 (struct_bytes (setup_data_members s) ! 2)
         (struct_bytes (setup_data_members s) ! 3) = wValue s
   \<and> of_le16 (struct_bytes (setup_data_members s) ! 4)
         (struct_bytes (setup_data_members s) ! 5) = wIndex s
   \<and> of_le16 (struct_bytes (setup_data_members s) ! 6)
         (struct_bytes (setup_data_members s) ! 7) = wLength s"
  by (simp add: setup_data_members_def struct_bytes_def struct_size_def member_offset_def
      le16_def of_le16_le16)

text \<open>
  C3. The device descriptor is laid out on 18 bytes, the configuration descriptor on 9, an
  interface descriptor on 9 and an endpoint descriptor on 7. The bytes are the members in
  the order of the declaration, each with the width of its type: the fourteen members of
  the device descriptor have the widths 1, 1, 2, 1, 1, 1, 1, 2, 2, 2, 1, 1, 1, 1, which
  sum to 18.
\<close>

theorem descriptor_layout:
  "length (struct_bytes (usb_device_descriptor_members d)) = 18
   \<and> length (struct_bytes (usb_config_descriptor_members c)) = 9
   \<and> length (struct_bytes (usb_interface_descriptor_members i)) = 9
   \<and> length (struct_bytes (usb_endpoint_descriptor_members e)) = 7
   \<and> length (usb_device_descriptor_members d) = 14
   \<and> map member_size (usb_device_descriptor_members d)
       = [1, 1, 2, 1, 1, 1, 1, 2, 2, 2, 1, 1, 1, 1]
   \<and> struct_size (usb_device_descriptor_members d) = 18
   \<and> map member_size (usb_config_descriptor_members c) = [1, 1, 2, 1, 1, 1, 1, 1]
   \<and> map member_size (usb_interface_descriptor_members i) = [1, 1, 1, 1, 1, 1, 1, 1, 1]
   \<and> map member_size (usb_endpoint_descriptor_members e) = [1, 1, 1, 1, 2, 1]
   \<and> struct_bytes (usb_device_descriptor_members d)
       = [usb_device_descriptor.bLength d, usb_device_descriptor.bDescriptorType d]
         @ le16 (bcdUSB d)
         @ [bDeviceClass d, bDeviceSubClass d, bDeviceProtocol d, bMaxPacketSize0 d]
         @ le16 (idVendor d) @ le16 (idProduct d) @ le16 (bcdDevice d)
         @ [iManufacturer d, iProduct d, iSerialNumber d, bNumConfigurations d]
   \<and> struct_bytes (usb_config_descriptor_members c)
       = [usb_config_descriptor.bLength c, usb_config_descriptor.bDescriptorType c]
         @ le16 (wTotalLength c)
         @ [bNumInterfaces c, bConfigurationValue c, iConfiguration c,
            usb_config_descriptor.bmAttributes c, MaxPower c]
   \<and> struct_bytes (usb_interface_descriptor_members i)
       = [usb_interface_descriptor.bLength i, usb_interface_descriptor.bDescriptorType i,
          bInterfaceNumber i, bAlternateSetting i, bNumEndpoints i, bInterfaceClass i,
          bInterfaceSubclass i, bInterfaceProtocol i, iInterface i]
   \<and> struct_bytes (usb_endpoint_descriptor_members e)
       = [usb_endpoint_descriptor.bLength e, usb_endpoint_descriptor.bDescriptorType e,
          bEndpointAddress e, usb_endpoint_descriptor.bmAttributes e]
         @ le16 (wMaxPacketSize e) @ [bInterval e]"
  by (simp add: usb_device_descriptor_members_def usb_config_descriptor_members_def
      usb_interface_descriptor_members_def usb_endpoint_descriptor_members_def
      struct_bytes_def struct_size_def le16_def)

subsection \<open>The fields of \<open>bmRequestType\<close>\<close>

lemmas bmRequestType_consts =
  USB_DIR_OUT_def USB_DIR_IN_def USB_REQ_TYPE_STANDARD_def USB_REQ_TYPE_CLASS_def
  USB_REQ_TYPE_VENDOR_def USB_REQ_TYPE_RESERVED_def USB_RECIP_DEVICE_def
  USB_RECIP_INTERFACE_def USB_RECIP_ENDPOINT_def USB_RECIP_OTHER_def

lemmas standard_request_types =
  USB_RECIP_CF_DEVICE_def USB_RECIP_CF_INTERFACE_def USB_RECIP_CF_ENDPOINT_def
  USB_RECIP_GC_DEVICE_def USB_RECIP_GD_DEVICE_def USB_RECIP_GI_INTERFACE_def
  USB_RECIP_GS_DEVICE_def USB_RECIP_GS_INTERFACE_def USB_RECIP_GS_ENDPOINT_def
  USB_RECIP_SC_DEVICE_def USB_RECIP_SD_DEVICE_def USB_RECIP_SF_DEVICE_def
  USB_RECIP_SF_INTERFACE_def USB_RECIP_SF_ENDPOINT_def USB_RECIP_SI_INTERFACE_def
  USB_RECIP_SY_ENDPOINT_def

lemma bit_128_int: "bit (128 :: int) n = (n = 7)"
  using bit_exp_iff [where ?'a = int, of 7 n] by auto

lemma bit_96_int: "bit (96 :: int) n = (n = 5 \<or> n = 6)"
proof -
  have "bit (push_bit 5 (mask 2) :: int) n = (5 \<le> n \<and> n - 5 < 2)"
    by (simp only: bit_push_bit_iff bit_mask_iff) simp
  moreover have "push_bit 5 (mask 2) = (96 :: int)"
    by (simp add: mask_eq_exp_minus_1)
  ultimately show ?thesis
    by (simp only:) arith
qed

lemma bit_31_int: "bit (31 :: int) n = (n < 5)"
proof -
  have "bit (mask 5 :: int) n = (n < 5)"
    by (simp only: bit_mask_iff) simp
  moreover have "mask 5 = (31 :: int)"
    by (simp add: mask_eq_exp_minus_1)
  ultimately show ?thesis
    by (simp only:)
qed

lemma seventh_bit: "n < 8 \<Longrightarrow> 7 \<le> n \<Longrightarrow> n = (7 :: nat)"
  by arith

lemma request_direction_shift: "request_direction b = push_bit 7 (drop_bit 7 b)"
  unfolding request_direction_def
  by (rule bit_word_eqI) (auto simp add: bit_simps bit_128_int dest: seventh_bit)

lemma request_direction_bit7: "request_direction b = (if bit b 7 then 0x80 else 0)"
  unfolding request_direction_def
  by (rule bit_word_eqI) (auto simp add: bit_simps bit_128_int)

lemma request_type_shift: "request_type b = push_bit 5 (take_bit 2 (drop_bit 5 b))"
  unfolding request_type_def
  by (rule bit_word_eqI) (auto simp add: bit_simps bit_96_int)

lemma request_type_bits65:
  "request_type b = (if bit b 6 then 0x40 else 0) OR (if bit b 5 then 0x20 else 0)"
  unfolding request_type_def
  by (rule bit_word_eqI)
    (auto simp add: bit_simps numeral_eq_Suc less_Suc_eq bit_numeral_word_iff)

lemma request_recipient_low5: "request_recipient b = take_bit 5 b"
  unfolding request_recipient_def
  by (simp add: take_bit_eq_mask mask_eq_exp_minus_1)

lemma request_fields_join:
  "request_direction b OR request_type b OR request_recipient b = b"
  unfolding request_direction_def request_type_def request_recipient_def
  by (rule bit_word_eqI) (auto simp add: bit_simps bit_128_int bit_96_int bit_31_int)

lemma request_direction_cases: "request_direction b \<in> {USB_DIR_OUT, USB_DIR_IN}"
  by (simp add: request_direction_bit7 bmRequestType_consts)

lemma request_type_cases:
  "request_type b \<in>
     {USB_REQ_TYPE_STANDARD, USB_REQ_TYPE_CLASS, USB_REQ_TYPE_VENDOR, USB_REQ_TYPE_RESERVED}"
  by (simp add: request_type_bits65 bmRequestType_consts)

lemma request_constants:
  "[USB_DIR_OUT, USB_DIR_IN] = [0x00, 0x80]
   \<and> [USB_REQ_TYPE_STANDARD, USB_REQ_TYPE_CLASS, USB_REQ_TYPE_VENDOR, USB_REQ_TYPE_RESERVED]
       = [push_bit 5 0, push_bit 5 1, push_bit 5 2, push_bit 5 3]
   \<and> [USB_RECIP_DEVICE, USB_RECIP_INTERFACE, USB_RECIP_ENDPOINT, USB_RECIP_OTHER]
       = [0, 1, 2, 3]"
  by (simp add: bmRequestType_consts)

lemma composite_fields:
  "map (\<lambda>c. (request_direction c, request_type c, request_recipient c))
     [USB_RECIP_CF_DEVICE, USB_RECIP_CF_INTERFACE, USB_RECIP_CF_ENDPOINT,
      USB_RECIP_GC_DEVICE, USB_RECIP_GD_DEVICE, USB_RECIP_GI_INTERFACE,
      USB_RECIP_GS_DEVICE, USB_RECIP_GS_INTERFACE, USB_RECIP_GS_ENDPOINT,
      USB_RECIP_SC_DEVICE, USB_RECIP_SD_DEVICE,
      USB_RECIP_SF_DEVICE, USB_RECIP_SF_INTERFACE, USB_RECIP_SF_ENDPOINT,
      USB_RECIP_SI_INTERFACE, USB_RECIP_SY_ENDPOINT]
   = [(USB_DIR_OUT, USB_REQ_TYPE_STANDARD, USB_RECIP_DEVICE),
      (USB_DIR_OUT, USB_REQ_TYPE_STANDARD, USB_RECIP_INTERFACE),
      (USB_DIR_OUT, USB_REQ_TYPE_STANDARD, USB_RECIP_ENDPOINT),
      (USB_DIR_IN, USB_REQ_TYPE_STANDARD, USB_RECIP_DEVICE),
      (USB_DIR_IN, USB_REQ_TYPE_STANDARD, USB_RECIP_DEVICE),
      (USB_DIR_IN, USB_REQ_TYPE_STANDARD, USB_RECIP_INTERFACE),
      (USB_DIR_IN, USB_REQ_TYPE_STANDARD, USB_RECIP_DEVICE),
      (USB_DIR_IN, USB_REQ_TYPE_STANDARD, USB_RECIP_INTERFACE),
      (USB_DIR_IN, USB_REQ_TYPE_STANDARD, USB_RECIP_ENDPOINT),
      (USB_DIR_OUT, USB_REQ_TYPE_STANDARD, USB_RECIP_DEVICE),
      (USB_DIR_OUT, USB_REQ_TYPE_STANDARD, USB_RECIP_DEVICE),
      (USB_DIR_OUT, USB_REQ_TYPE_STANDARD, USB_RECIP_DEVICE),
      (USB_DIR_OUT, USB_REQ_TYPE_STANDARD, USB_RECIP_INTERFACE),
      (USB_DIR_OUT, USB_REQ_TYPE_STANDARD, USB_RECIP_ENDPOINT),
      (USB_DIR_OUT, USB_REQ_TYPE_STANDARD, USB_RECIP_INTERFACE),
      (USB_DIR_IN, USB_REQ_TYPE_STANDARD, USB_RECIP_ENDPOINT)]"
  by (simp add: standard_request_types bmRequestType_consts request_direction_def
      request_type_def request_recipient_def)

lemma composite_values:
  "[USB_RECIP_CF_DEVICE, USB_RECIP_CF_INTERFACE, USB_RECIP_CF_ENDPOINT,
    USB_RECIP_GC_DEVICE, USB_RECIP_GD_DEVICE, USB_RECIP_GI_INTERFACE,
    USB_RECIP_GS_DEVICE, USB_RECIP_GS_INTERFACE, USB_RECIP_GS_ENDPOINT,
    USB_RECIP_SC_DEVICE, USB_RECIP_SD_DEVICE,
    USB_RECIP_SF_DEVICE, USB_RECIP_SF_INTERFACE, USB_RECIP_SF_ENDPOINT,
    USB_RECIP_SI_INTERFACE, USB_RECIP_SY_ENDPOINT]
   = [0x00, 0x01, 0x02, 0x80, 0x80, 0x81, 0x80, 0x81, 0x82, 0x00, 0x00, 0x00, 0x01, 0x02,
      0x01, 0x82]"
  by (simp add: standard_request_types bmRequestType_consts)

text \<open>
  C2. In every \<open>bmRequestType\<close> byte, bit 7 is the direction (\<open>USB_DIR_OUT\<close> is \<open>0x00\<close>,
  \<open>USB_DIR_IN\<close> is \<open>0x80\<close>), bits 6 to 5 are the type (Standard 0, Class 1, Vendor 2,
  Reserved 3, each shifted left by 5) and bits 4 to 0 are the recipient (Device 0,
  Interface 1, Endpoint 2, Other 3): the three fields do not overlap and make up the byte.
  Each of the sixteen \<open>USB_RECIP_*\<close> values of the standard requests is the bitwise OR of
  its direction, the Standard type and its recipient, and decodes to exactly these three.
\<close>

theorem bmRequestType_fields:
  "request_direction b OR request_type b OR request_recipient b = b
   \<and> request_direction b = push_bit 7 (drop_bit 7 b)
   \<and> request_type b = push_bit 5 (take_bit 2 (drop_bit 5 b))
   \<and> request_recipient b = take_bit 5 b
   \<and> request_direction b \<in> {USB_DIR_OUT, USB_DIR_IN}
   \<and> request_type b \<in>
       {USB_REQ_TYPE_STANDARD, USB_REQ_TYPE_CLASS, USB_REQ_TYPE_VENDOR, USB_REQ_TYPE_RESERVED}
   \<and> [USB_DIR_OUT, USB_DIR_IN] = [0x00, 0x80]
   \<and> [USB_REQ_TYPE_STANDARD, USB_REQ_TYPE_CLASS, USB_REQ_TYPE_VENDOR, USB_REQ_TYPE_RESERVED]
       = [push_bit 5 0, push_bit 5 1, push_bit 5 2, push_bit 5 3]
   \<and> [USB_RECIP_DEVICE, USB_RECIP_INTERFACE, USB_RECIP_ENDPOINT, USB_RECIP_OTHER]
       = [0, 1, 2, 3]
   \<and> map (\<lambda>c. (request_direction c, request_type c, request_recipient c))
       [USB_RECIP_CF_DEVICE, USB_RECIP_CF_INTERFACE, USB_RECIP_CF_ENDPOINT,
        USB_RECIP_GC_DEVICE, USB_RECIP_GD_DEVICE, USB_RECIP_GI_INTERFACE,
        USB_RECIP_GS_DEVICE, USB_RECIP_GS_INTERFACE, USB_RECIP_GS_ENDPOINT,
        USB_RECIP_SC_DEVICE, USB_RECIP_SD_DEVICE,
        USB_RECIP_SF_DEVICE, USB_RECIP_SF_INTERFACE, USB_RECIP_SF_ENDPOINT,
        USB_RECIP_SI_INTERFACE, USB_RECIP_SY_ENDPOINT]
     = [(USB_DIR_OUT, USB_REQ_TYPE_STANDARD, USB_RECIP_DEVICE),
        (USB_DIR_OUT, USB_REQ_TYPE_STANDARD, USB_RECIP_INTERFACE),
        (USB_DIR_OUT, USB_REQ_TYPE_STANDARD, USB_RECIP_ENDPOINT),
        (USB_DIR_IN, USB_REQ_TYPE_STANDARD, USB_RECIP_DEVICE),
        (USB_DIR_IN, USB_REQ_TYPE_STANDARD, USB_RECIP_DEVICE),
        (USB_DIR_IN, USB_REQ_TYPE_STANDARD, USB_RECIP_INTERFACE),
        (USB_DIR_IN, USB_REQ_TYPE_STANDARD, USB_RECIP_DEVICE),
        (USB_DIR_IN, USB_REQ_TYPE_STANDARD, USB_RECIP_INTERFACE),
        (USB_DIR_IN, USB_REQ_TYPE_STANDARD, USB_RECIP_ENDPOINT),
        (USB_DIR_OUT, USB_REQ_TYPE_STANDARD, USB_RECIP_DEVICE),
        (USB_DIR_OUT, USB_REQ_TYPE_STANDARD, USB_RECIP_DEVICE),
        (USB_DIR_OUT, USB_REQ_TYPE_STANDARD, USB_RECIP_DEVICE),
        (USB_DIR_OUT, USB_REQ_TYPE_STANDARD, USB_RECIP_INTERFACE),
        (USB_DIR_OUT, USB_REQ_TYPE_STANDARD, USB_RECIP_ENDPOINT),
        (USB_DIR_OUT, USB_REQ_TYPE_STANDARD, USB_RECIP_INTERFACE),
        (USB_DIR_IN, USB_REQ_TYPE_STANDARD, USB_RECIP_ENDPOINT)]
   \<and> [USB_RECIP_CF_DEVICE, USB_RECIP_CF_INTERFACE, USB_RECIP_CF_ENDPOINT,
        USB_RECIP_GC_DEVICE, USB_RECIP_GD_DEVICE, USB_RECIP_GI_INTERFACE,
        USB_RECIP_GS_DEVICE, USB_RECIP_GS_INTERFACE, USB_RECIP_GS_ENDPOINT,
        USB_RECIP_SC_DEVICE, USB_RECIP_SD_DEVICE,
        USB_RECIP_SF_DEVICE, USB_RECIP_SF_INTERFACE, USB_RECIP_SF_ENDPOINT,
        USB_RECIP_SI_INTERFACE, USB_RECIP_SY_ENDPOINT]
     = [0x00, 0x01, 0x02, 0x80, 0x80, 0x81, 0x80, 0x81, 0x82, 0x00, 0x00, 0x00, 0x01, 0x02,
        0x01, 0x82]"
  using request_fields_join [of b] request_direction_shift [of b] request_type_shift [of b]
    request_recipient_low5 [of b] request_direction_cases [of b] request_type_cases [of b]
    request_constants composite_fields composite_values
  by (intro conjI) (simp_all only: simp_thms)

lemmas members_defs =
  usb_device_descriptor_members_def usb_config_descriptor_members_def
  usb_interface_descriptor_members_def usb_endpoint_descriptor_members_def
  usb_language_descriptor_members_def usb_string_descriptor_members_def

subsection \<open>Self-describing descriptors\<close>


lemma struct_size_string:
  "struct_size (usb_string_descriptor_members s) = 2 + 2 * length (bString s)"
  using struct_size_U16s [of "bString s"]
  by (simp add: usb_string_descriptor_members_def struct_size_def)





lemma STR_DESCR_length:
  "length (struct_bytes (usb_string_descriptor_members (STR_DESCR len units)))
     = 2 + 2 * length units"
  by (simp add: length_struct_bytes struct_size_string STR_DESCR_def)

text \<open>
  The pasted argument at work: \<open>STR_DESCR(1+2, a, b, c)\<close> expands to \<open>1+2*2+2\<close> and stores
  7, for a descriptor of three code units and eight bytes.
\<close>

lemma STR_DESCR_sum_argument:
  "arg_value (Addend 1 (Operand 2)) = 3
   \<and> usb_string_descriptor.bLength (STR_DESCR (Addend 1 (Operand 2)) [a, b, c]) = 7
   \<and> length (struct_bytes (usb_string_descriptor_members
         (STR_DESCR (Addend 1 (Operand 2)) [a, b, c]))) = 8"
  by (simp add: STR_DESCR_length) (simp add: STR_DESCR_def)




subsection \<open>Stalling endpoint 0\<close>

text \<open>
  C10. \<open>STALL_EP0\<close> writes to \<open>EP0CS\<close> the value it read from it, ORed with \<open>EP0STALL\<close>:
  afterwards every bit of \<open>EP0STALL\<close> is set in \<open>EP0CS\<close>, every other bit of \<open>EP0CS\<close> is
  as it was, and no other register is written.
\<close>

theorem STALL_EP0_sets_only_the_stall_bit:
  "EP0CS (STALL_EP0 EP0STALL r) = EP0CS r OR EP0STALL
   \<and> EP0CS (STALL_EP0 EP0STALL r) AND EP0STALL = EP0STALL
   \<and> EP0CS (STALL_EP0 EP0STALL r) AND NOT EP0STALL = EP0CS r AND NOT EP0STALL
   \<and> (\<forall>n. bit (EP0CS (STALL_EP0 EP0STALL r)) n = (bit EP0STALL n \<or> bit (EP0CS r) n))
   \<and> EXIF (STALL_EP0 EP0STALL r) = EXIF r"
  by (auto simp add: STALL_EP0_def bit_simps bit.conj_disj_distrib2)

section \<open>Properties of the control-transfer engine\<close>

subsection \<open>The example store\<close>

lemmas descriptor_type_consts =
  USB_DESCRIPTOR_TYPE_DEVICE_def USB_DESCRIPTOR_TYPE_CONFIGURATION_def
  USB_DESCRIPTOR_TYPE_STRING_def USB_DESCRIPTOR_TYPE_INTERFACE_def
  USB_DESCRIPTOR_TYPE_ENDPOINT_def




lemma example_string_bytes:
  "getDescriptor example_store USB_DESCRIPTOR_TYPE_STRING 1 USB_LANG_ENGLISH_US
     = Some [8, 3, 0x55, 0, 0x53, 0, 0x42, 0]"
  by (simp add: getDescriptor_def example_store_def members_defs struct_bytes_def le16_def
      descriptor_type_consts STR_DESCR_def USB_LANG_ENGLISH_US_def)

lemma example_language_bytes:
  "getDescriptor example_store USB_DESCRIPTOR_TYPE_STRING 0 0 = Some [4, 3, 0x09, 0x04]"
  by (simp add: getDescriptor_def example_store_def members_defs struct_bytes_def le16_def
      descriptor_type_consts USB_LANG_ENGLISH_US_def)

lemma example_string_not_found:
  "getDescriptor example_store USB_DESCRIPTOR_TYPE_STRING 4 USB_LANG_ENGLISH_US = None
   \<and> getDescriptor example_store USB_DESCRIPTOR_TYPE_STRING 1 0x0407 = None
   \<and> getDescriptor example_store USB_DESCRIPTOR_TYPE_INTERFACE 0 0 = None"
  by (simp add: getDescriptor_def example_store_def descriptor_type_consts
      USB_LANG_ENGLISH_US_def STR_DESCR_def)

subsection \<open>Request codes that are not recognised\<close>

lemmas request_code_consts =
  USB_REQ_GET_STATUS_def USB_REQ_CLEAR_FEATURE_def USB_REQ_SET_FEATURE_def
  USB_REQ_SET_ADDRESS_def USB_REQ_GET_DESCRIPTOR_def USB_REQ_SET_DESCRIPTOR_def
  USB_REQ_GET_CONFIGURATION_def USB_REQ_SET_CONFIGURATION_def USB_REQ_GET_INTERFACE_def
  USB_REQ_SET_INTERFACE_def USB_REQ_SYNCH_FRAME_def

lemma usb_requests_values: "usb_requests = [0, 1, 3, 5, 6, 7, 8, 9, 10, 11, 12]"
  by (simp add: usb_requests_def request_code_consts)

lemma standard_request_unrecognised:
  assumes "bRequest s \<notin> set usb_requests"
  shows "standard_request st s dev = (Fail, dev)"
  using assms by (simp add: standard_request_def usb_requests_def)

lemma control_transfer_Fail:
  assumes "classify st ext s (dev\<lparr>ep0_stalled := False, control := SETUP_RECEIVED\<rparr>)
             = (Fail, dev\<lparr>ep0_stalled := False, control := SETUP_RECEIVED\<rparr>)"
  shows "control_transfer st ext s dev
     = (\<lparr>trace = [SETUP_RECEIVED, ERROR_STALL], sent = []\<rparr>,
        dev\<lparr>ep0_stalled := True, control := ERROR_STALL\<rparr>)"
  using assms by (simp add: control_transfer_def)

text \<open>
  C4, as amended. The header defines eleven request codes: 0, 1, 3 and 5 to 12. A standard
  request with any other code, 2 and 4 among them, ends in \<open>ERROR_STALL\<close> with the
  control endpoint stalled; no handler runs, so nothing else of the state changes and no
  data is returned.
\<close>

theorem unrecognised_request_stalls:
  "(request_type (bmRequestType s) = USB_REQ_TYPE_STANDARD \<and> bRequest s \<notin> set usb_requests
     \<longrightarrow> control_transfer st ext s dev
         = (\<lparr>trace = [SETUP_RECEIVED, ERROR_STALL], sent = []\<rparr>,
            dev\<lparr>ep0_stalled := True, control := ERROR_STALL\<rparr>))
   \<and> usb_requests = [0, 1, 3, 5, 6, 7, 8, 9, 10, 11, 12]
   \<and> length usb_requests = 11
   \<and> distinct usb_requests
   \<and> 2 \<notin> set usb_requests \<and> 4 \<notin> set usb_requests"
proof (intro conjI impI)
  assume a: "request_type (bmRequestType s) = USB_REQ_TYPE_STANDARD
    \<and> bRequest s \<notin> set usb_requests"
  then have "classify st ext s (dev\<lparr>ep0_stalled := False, control := SETUP_RECEIVED\<rparr>)
      = (Fail, dev\<lparr>ep0_stalled := False, control := SETUP_RECEIVED\<rparr>)"
    by (simp add: classify_def standard_request_unrecognised)
  then show "control_transfer st ext s dev
      = (\<lparr>trace = [SETUP_RECEIVED, ERROR_STALL], sent = []\<rparr>,
         dev\<lparr>ep0_stalled := True, control := ERROR_STALL\<rparr>)"
    by (rule control_transfer_Fail)
qed (simp_all add: usb_requests_values)

text \<open>The theorem at the two reserved request codes, 2 and 4.\<close>

theorem unrecognised_request_stalls_witness:
  "request_type (bmRequestType (setup_reserved 2)) = USB_REQ_TYPE_STANDARD
   \<and> bRequest (setup_reserved 2) \<notin> set usb_requests
   \<and> control_transfer example_store None (setup_reserved 2) reset_state
       = (\<lparr>trace = [SETUP_RECEIVED, ERROR_STALL], sent = []\<rparr>,
          reset_state\<lparr>ep0_stalled := True, control := ERROR_STALL\<rparr>)
   \<and> request_type (bmRequestType (setup_reserved 4)) = USB_REQ_TYPE_STANDARD
   \<and> bRequest (setup_reserved 4) \<notin> set usb_requests
   \<and> control_transfer example_store None (setup_reserved 4) reset_state
       = (\<lparr>trace = [SETUP_RECEIVED, ERROR_STALL], sent = []\<rparr>,
          reset_state\<lparr>ep0_stalled := True, control := ERROR_STALL\<rparr>)"
proof -
  have t2: "request_type (bmRequestType (setup_reserved 2)) = USB_REQ_TYPE_STANDARD"
    and t4: "request_type (bmRequestType (setup_reserved 4)) = USB_REQ_TYPE_STANDARD"
    by (simp_all add: setup_reserved_def USB_RECIP_CF_DEVICE_def bmRequestType_consts
        request_type_def)
  have r2: "bRequest (setup_reserved 2) \<notin> set usb_requests"
    and r4: "bRequest (setup_reserved 4) \<notin> set usb_requests"
    by (simp_all add: setup_reserved_def usb_requests_values)
  have s2: "control_transfer example_store None (setup_reserved 2) reset_state
       = (\<lparr>trace = [SETUP_RECEIVED, ERROR_STALL], sent = []\<rparr>,
          reset_state\<lparr>ep0_stalled := True, control := ERROR_STALL\<rparr>)"
    using unrecognised_request_stalls [of "setup_reserved 2" example_store None reset_state]
      t2 r2 by blast
  have s4: "control_transfer example_store None (setup_reserved 4) reset_state
       = (\<lparr>trace = [SETUP_RECEIVED, ERROR_STALL], sent = []\<rparr>,
          reset_state\<lparr>ep0_stalled := True, control := ERROR_STALL\<rparr>)"
    using unrecognised_request_stalls [of "setup_reserved 4" example_store None reset_state]
      t4 r4 by blast
  from t2 r2 s2 t4 r4 s4 show ?thesis
    by (intro conjI)
qed

text \<open>
  C4 as stated counts twelve defined request codes; the codes the header defines, the
  same the claim lists, are eleven.
\<close>

theorem defined_request_codes_are_eleven:
  "length usb_requests = 11 \<and> distinct usb_requests
   \<and> card (set usb_requests) = 11 \<and> card (set usb_requests) \<noteq> 12
   \<and> set usb_requests = {0, 1, 3, 5, 6, 7, 8, 9, 10, 11, 12}"
  by (simp add: usb_requests_values)

subsection \<open>Feature requests\<close>

lemma control_transfer_Ack:
  assumes "classify st ext s (dev\<lparr>ep0_stalled := False, control := SETUP_RECEIVED\<rparr>)
             = (Ack, dev')"
  shows "control_transfer st ext s dev
     = (\<lparr>trace = [SETUP_RECEIVED, data_stage s, STATUS, IDLE], sent = []\<rparr>,
        dev'\<lparr>control := IDLE\<rparr>)"
  using assms by (simp add: control_transfer_def)


lemma classify_feature:
  assumes "request_type (bmRequestType s) = USB_REQ_TYPE_STANDARD"
    and "bRequest s = USB_REQ_CLEAR_FEATURE \<or> bRequest s = USB_REQ_SET_FEATURE"
  shows "classify st ext s dev = feature_request (bRequest s = USB_REQ_SET_FEATURE) s dev"
  using assms by (auto simp add: classify_def standard_request_def request_code_consts)

text \<open>
  C5. A standard CLEAR_FEATURE or SET_FEATURE request is carried out in two cases only:
  the selector ENDPOINT_HALT (0) with an endpoint as recipient changes the halt flag of
  that endpoint, and the selector DEVICE_REMOTE_WAKEUP (1) with the device as recipient
  changes the remote-wakeup feature. In every other case, so for every other selector,
  the control endpoint is stalled and the state is otherwise unchanged.
\<close>

theorem feature_requests:
  "(request_type (bmRequestType s) = USB_REQ_TYPE_STANDARD
      \<and> (bRequest s = USB_REQ_CLEAR_FEATURE \<or> bRequest s = USB_REQ_SET_FEATURE)
      \<and> wValue s = ENDPOINT_HALT
      \<and> request_recipient (bmRequestType s) = USB_RECIP_ENDPOINT
     \<longrightarrow> control_transfer st ext s dev
         = (\<lparr>trace = [SETUP_RECEIVED, data_stage s, STATUS, IDLE], sent = []\<rparr>,
            dev\<lparr>halted := (halted dev)(ucast (wIndex s) := (bRequest s = USB_REQ_SET_FEATURE)),
                data_toggle := (if bRequest s = USB_REQ_SET_FEATURE then data_toggle dev
                                else (data_toggle dev)(ucast (wIndex s) := False)),
                ep0_stalled := False, control := IDLE\<rparr>))
   \<and> (request_type (bmRequestType s) = USB_REQ_TYPE_STANDARD
      \<and> (bRequest s = USB_REQ_CLEAR_FEATURE \<or> bRequest s = USB_REQ_SET_FEATURE)
      \<and> wValue s = DEVICE_REMOTE_WAKEUP
      \<and> request_recipient (bmRequestType s) = USB_RECIP_DEVICE
     \<longrightarrow> control_transfer st ext s dev
         = (\<lparr>trace = [SETUP_RECEIVED, data_stage s, STATUS, IDLE], sent = []\<rparr>,
            dev\<lparr>remote_wakeup := (bRequest s = USB_REQ_SET_FEATURE),
                ep0_stalled := False, control := IDLE\<rparr>))
   \<and> (request_type (bmRequestType s) = USB_REQ_TYPE_STANDARD
      \<and> (bRequest s = USB_REQ_CLEAR_FEATURE \<or> bRequest s = USB_REQ_SET_FEATURE)
      \<and> \<not> (wValue s = ENDPOINT_HALT
             \<and> request_recipient (bmRequestType s) = USB_RECIP_ENDPOINT)
      \<and> \<not> (wValue s = DEVICE_REMOTE_WAKEUP
             \<and> request_recipient (bmRequestType s) = USB_RECIP_DEVICE)
     \<longrightarrow> control_transfer st ext s dev
         = (\<lparr>trace = [SETUP_RECEIVED, ERROR_STALL], sent = []\<rparr>,
            dev\<lparr>ep0_stalled := True, control := ERROR_STALL\<rparr>))
   \<and> ENDPOINT_HALT = 0 \<and> DEVICE_REMOTE_WAKEUP = 1"
proof (intro conjI impI)
  let ?dev = "dev\<lparr>ep0_stalled := False, control := SETUP_RECEIVED\<rparr>"
  let ?on = "bRequest s = USB_REQ_SET_FEATURE"
  {
    assume a: "request_type (bmRequestType s) = USB_REQ_TYPE_STANDARD
      \<and> (bRequest s = USB_REQ_CLEAR_FEATURE \<or> bRequest s = USB_REQ_SET_FEATURE)
      \<and> wValue s = ENDPOINT_HALT
      \<and> request_recipient (bmRequestType s) = USB_RECIP_ENDPOINT"
    then have "classify st ext s ?dev = feature_request ?on s ?dev"
      by (simp add: classify_feature)
    also have "\<dots> = (Ack, ?dev\<lparr>halted := (halted dev)(ucast (wIndex s) := ?on),
          data_toggle := (if ?on then data_toggle dev
                          else (data_toggle dev)(ucast (wIndex s) := False))\<rparr>)"
      using a by (simp add: feature_request_def)
    finally show "control_transfer st ext s dev
         = (\<lparr>trace = [SETUP_RECEIVED, data_stage s, STATUS, IDLE], sent = []\<rparr>,
            dev\<lparr>halted := (halted dev)(ucast (wIndex s) := ?on),
                data_toggle := (if ?on then data_toggle dev
                                else (data_toggle dev)(ucast (wIndex s) := False)),
                ep0_stalled := False, control := IDLE\<rparr>)"
      by (simp add: control_transfer_Ack)
  }
  {
    assume a: "request_type (bmRequestType s) = USB_REQ_TYPE_STANDARD
      \<and> (bRequest s = USB_REQ_CLEAR_FEATURE \<or> bRequest s = USB_REQ_SET_FEATURE)
      \<and> wValue s = DEVICE_REMOTE_WAKEUP
      \<and> request_recipient (bmRequestType s) = USB_RECIP_DEVICE"
    then have "classify st ext s ?dev = feature_request ?on s ?dev"
      by (simp add: classify_feature)
    also have "\<dots> = (Ack, ?dev\<lparr>remote_wakeup := ?on\<rparr>)"
      using a by (simp add: feature_request_def ENDPOINT_HALT_def DEVICE_REMOTE_WAKEUP_def)
    finally show "control_transfer st ext s dev
         = (\<lparr>trace = [SETUP_RECEIVED, data_stage s, STATUS, IDLE], sent = []\<rparr>,
            dev\<lparr>remote_wakeup := ?on, ep0_stalled := False, control := IDLE\<rparr>)"
      by (simp add: control_transfer_Ack)
  }
  {
    assume a: "request_type (bmRequestType s) = USB_REQ_TYPE_STANDARD
      \<and> (bRequest s = USB_REQ_CLEAR_FEATURE \<or> bRequest s = USB_REQ_SET_FEATURE)
      \<and> \<not> (wValue s = ENDPOINT_HALT
             \<and> request_recipient (bmRequestType s) = USB_RECIP_ENDPOINT)
      \<and> \<not> (wValue s = DEVICE_REMOTE_WAKEUP
             \<and> request_recipient (bmRequestType s) = USB_RECIP_DEVICE)"
    then have "classify st ext s ?dev = feature_request ?on s ?dev"
      by (simp add: classify_feature)
    also have "\<dots> = (Fail, ?dev)"
      using a by (simp add: feature_request_def)
    finally show "control_transfer st ext s dev
         = (\<lparr>trace = [SETUP_RECEIVED, ERROR_STALL], sent = []\<rparr>,
            dev\<lparr>ep0_stalled := True, control := ERROR_STALL\<rparr>)"
      by (rule control_transfer_Fail)
  }
qed (simp_all add: ENDPOINT_HALT_def DEVICE_REMOTE_WAKEUP_def)

lemmas setup_feature_simps =
  setup_feature_def standard_request_types bmRequestType_consts request_code_consts
  request_type_def request_recipient_def ENDPOINT_HALT_def DEVICE_REMOTE_WAKEUP_def

text \<open>
  The theorem at four requests: halting endpoint \<open>0x82\<close>, enabling remote wakeup, the
  unknown selector 2, and ENDPOINT_HALT sent to the device.
\<close>

theorem feature_requests_witness:
  "request_type (bmRequestType (setup_feature USB_RECIP_SF_ENDPOINT USB_REQ_SET_FEATURE
       ENDPOINT_HALT 0x82)) = USB_REQ_TYPE_STANDARD
   \<and> bRequest (setup_feature USB_RECIP_SF_ENDPOINT USB_REQ_SET_FEATURE ENDPOINT_HALT 0x82)
       = USB_REQ_SET_FEATURE
   \<and> wValue (setup_feature USB_RECIP_SF_ENDPOINT USB_REQ_SET_FEATURE ENDPOINT_HALT 0x82)
       = ENDPOINT_HALT
   \<and> request_recipient (bmRequestType (setup_feature USB_RECIP_SF_ENDPOINT
       USB_REQ_SET_FEATURE ENDPOINT_HALT 0x82)) = USB_RECIP_ENDPOINT
   \<and> halted (snd (control_transfer example_store None
         (setup_feature USB_RECIP_SF_ENDPOINT USB_REQ_SET_FEATURE ENDPOINT_HALT 0x82)
         reset_state)) 0x82
   \<and> \<not> ep0_stalled (snd (control_transfer example_store None
         (setup_feature USB_RECIP_SF_ENDPOINT USB_REQ_SET_FEATURE ENDPOINT_HALT 0x82)
         reset_state))
   \<and> request_recipient (bmRequestType (setup_feature USB_RECIP_SF_DEVICE
       USB_REQ_SET_FEATURE DEVICE_REMOTE_WAKEUP 0)) = USB_RECIP_DEVICE
   \<and> remote_wakeup (snd (control_transfer example_store None
         (setup_feature USB_RECIP_SF_DEVICE USB_REQ_SET_FEATURE DEVICE_REMOTE_WAKEUP 0)
         reset_state))
   \<and> wValue (setup_feature USB_RECIP_SF_DEVICE USB_REQ_SET_FEATURE 2 0) \<noteq> ENDPOINT_HALT
   \<and> wValue (setup_feature USB_RECIP_SF_DEVICE USB_REQ_SET_FEATURE 2 0)
       \<noteq> DEVICE_REMOTE_WAKEUP
   \<and> control_transfer example_store None
         (setup_feature USB_RECIP_SF_DEVICE USB_REQ_SET_FEATURE 2 0) reset_state
       = (\<lparr>trace = [SETUP_RECEIVED, ERROR_STALL], sent = []\<rparr>,
          reset_state\<lparr>ep0_stalled := True, control := ERROR_STALL\<rparr>)
   \<and> control_transfer example_store None
         (setup_feature USB_RECIP_SF_DEVICE USB_REQ_SET_FEATURE ENDPOINT_HALT 0) reset_state
       = (\<lparr>trace = [SETUP_RECEIVED, ERROR_STALL], sent = []\<rparr>,
          reset_state\<lparr>ep0_stalled := True, control := ERROR_STALL\<rparr>)"
proof -
  let ?halt = "setup_feature USB_RECIP_SF_ENDPOINT USB_REQ_SET_FEATURE ENDPOINT_HALT 0x82"
  let ?wake = "setup_feature USB_RECIP_SF_DEVICE USB_REQ_SET_FEATURE DEVICE_REMOTE_WAKEUP 0"
  let ?test = "setup_feature USB_RECIP_SF_DEVICE USB_REQ_SET_FEATURE 2 0"
  let ?odd = "setup_feature USB_RECIP_SF_DEVICE USB_REQ_SET_FEATURE ENDPOINT_HALT 0"
  have h: "request_type (bmRequestType ?halt) = USB_REQ_TYPE_STANDARD"
      "bRequest ?halt = USB_REQ_SET_FEATURE" "wValue ?halt = ENDPOINT_HALT"
      "request_recipient (bmRequestType ?halt) = USB_RECIP_ENDPOINT"
    by (simp_all add: setup_feature_simps)
  have w: "request_type (bmRequestType ?wake) = USB_REQ_TYPE_STANDARD"
      "bRequest ?wake = USB_REQ_SET_FEATURE" "wValue ?wake = DEVICE_REMOTE_WAKEUP"
      "request_recipient (bmRequestType ?wake) = USB_RECIP_DEVICE"
    by (simp_all add: setup_feature_simps)
  have t: "request_type (bmRequestType ?test) = USB_REQ_TYPE_STANDARD"
      "bRequest ?test = USB_REQ_SET_FEATURE" "wValue ?test \<noteq> ENDPOINT_HALT"
      "wValue ?test \<noteq> DEVICE_REMOTE_WAKEUP"
    by (simp_all add: setup_feature_simps)
  have d: "request_type (bmRequestType ?odd) = USB_REQ_TYPE_STANDARD"
      "bRequest ?odd = USB_REQ_SET_FEATURE" "wValue ?odd \<noteq> DEVICE_REMOTE_WAKEUP"
      "request_recipient (bmRequestType ?odd) \<noteq> USB_RECIP_ENDPOINT"
    by (simp_all add: setup_feature_simps)
  have 1: "control_transfer example_store None ?halt reset_state
         = (\<lparr>trace = [SETUP_RECEIVED, data_stage ?halt, STATUS, IDLE], sent = []\<rparr>,
            reset_state\<lparr>halted := (halted reset_state)(ucast (wIndex ?halt) :=
                  (bRequest ?halt = USB_REQ_SET_FEATURE)),
                data_toggle := (if bRequest ?halt = USB_REQ_SET_FEATURE
                                then data_toggle reset_state
                                else (data_toggle reset_state)(ucast (wIndex ?halt) := False)),
                ep0_stalled := False, control := IDLE\<rparr>)"
    using feature_requests [of ?halt example_store None reset_state] h by blast
  have 2: "control_transfer example_store None ?wake reset_state
         = (\<lparr>trace = [SETUP_RECEIVED, data_stage ?wake, STATUS, IDLE], sent = []\<rparr>,
            reset_state\<lparr>remote_wakeup := (bRequest ?wake = USB_REQ_SET_FEATURE),
                ep0_stalled := False, control := IDLE\<rparr>)"
    using feature_requests [of ?wake example_store None reset_state] w by blast
  have 3: "control_transfer example_store None ?test reset_state
       = (\<lparr>trace = [SETUP_RECEIVED, ERROR_STALL], sent = []\<rparr>,
          reset_state\<lparr>ep0_stalled := True, control := ERROR_STALL\<rparr>)"
    using feature_requests [of ?test example_store None reset_state] t by blast
  have 4: "control_transfer example_store None ?odd reset_state
       = (\<lparr>trace = [SETUP_RECEIVED, ERROR_STALL], sent = []\<rparr>,
          reset_state\<lparr>ep0_stalled := True, control := ERROR_STALL\<rparr>)"
    using feature_requests [of ?odd example_store None reset_state] d by blast
  have 5: "halted (snd (control_transfer example_store None ?halt reset_state)) 0x82"
    unfolding 1 using h(2) by (simp add: setup_feature_def)
  have 6: "\<not> ep0_stalled (snd (control_transfer example_store None ?halt reset_state))"
    unfolding 1 by simp
  have 7: "remote_wakeup (snd (control_transfer example_store None ?wake reset_state))"
    unfolding 2 using w(2) by simp
  from h w t 3 4 5 6 7 show ?thesis
    by (intro conjI)
qed

subsection \<open>The length of a descriptor transfer\<close>


lemma classify_descriptor_not_found:
  assumes "request_type (bmRequestType s) = USB_REQ_TYPE_STANDARD"
    and "bRequest s = USB_REQ_GET_DESCRIPTOR"
    and "getDescriptor st (ucast (drop_bit 8 (wValue s))) (ucast (wValue s)) (wIndex s) = None"
  shows "classify st ext s dev = (Fail, dev)"
  using assms by (simp add: classify_def standard_request_def request_code_consts)








end
